theory Spec2Isabelle
  imports Main
begin

section \<open>The interface of the diff library\<close>

text \<open>
  \<^verbatim>\<open>diffs/core.py\<close> holds no diff or patch algorithm of its own. Each of its functions
  builds a fresh \<^verbatim>\<open>diff_match_patch()\<close> object and calls its methods; that package is
  imported, it is not a file of the repository. The four methods \<^verbatim>\<open>core.py\<close> calls are
  therefore parameters of the model, collected in one record:

  \<^item> \<open>'p\<close> is whatever \<^verbatim>\<open>patch_make\<close> and \<^verbatim>\<open>patch_fromText\<close> return and
    \<^verbatim>\<open>patch_toText\<close> and \<^verbatim>\<open>patch_apply\<close> accept (the list of patch objects);
  \<^item> \<open>'r\<close> is the second component of the pair \<^verbatim>\<open>patch_apply\<close> returns (the
    per-patch results), which \<^verbatim>\<open>core.py\<close> binds to \<^verbatim>\<open>_\<close>;
  \<^item> \<open>'e\<close> is the exceptions a call may raise: \<open>Inl e\<close> is a raise, \<open>Inr v\<close> a
    return.

  Python's \<^verbatim>\<open>str\<close> is modelled as \<^typ>\<open>string\<close>; \<^verbatim>\<open>core.py\<close> never looks inside a
  text, it only hands it on.
\<close>

record ('p, 'r, 'e) diff_match_patch =
  patch_make :: "string \<Rightarrow> string \<Rightarrow> 'e + 'p"
  patch_toText :: "'p \<Rightarrow> 'e + string"
  patch_fromText :: "string \<Rightarrow> 'e + 'p"
  patch_apply :: "'p \<Rightarrow> string \<Rightarrow> 'e + (string \<times> 'r)"

section \<open>core.py\<close>

subsection \<open>Transaction and Section\<close>

text \<open>
  \<^verbatim>\<open>
  class Transaction:
      def __init__(self, patches: List[str]) -> None:
          self.patches = patches

  class Section:
      def __init__(self, section_type: str, text: str) -> None:
          self.section_type = section_type
          self.text = text
  \<close>
  The attribute \<^verbatim>\<open>text\<close> is the field \<open>section_text\<close> (\<^verbatim>\<open>text\<close> is a keyword here).
  \<^verbatim>\<open>patches\<close> is annotated \<^verbatim>\<open>List[str]\<close>, but the value stored in it is what
  \<^verbatim>\<open>create_patches\<close> returns and \<^verbatim>\<open>apply_patches\<close> accepts, the \<^verbatim>\<open>str\<close> of
  \<^verbatim>\<open>patch_toText\<close>; the field has that type.
\<close>

record Transaction =
  patches :: string

record Section =
  section_type :: string
  section_text :: string

subsection \<open>create_patches and apply_patches\<close>

text \<open>
  \<^verbatim>\<open>
  def create_patches(text1: str, text2: str) -> List[str]:
      dmp = diff_match_patch()
      patches = dmp.patch_make(text1, text2)
      return dmp.patch_toText(patches)
  \<close>
  An exception of either call leaves the function at once.
\<close>

definition create_patches ::
  "('p, 'r, 'e) diff_match_patch \<Rightarrow> string \<Rightarrow> string \<Rightarrow> 'e + string" where
  "create_patches dmp text1 text2 =
     (case patch_make dmp text1 text2 of
        Inl e \<Rightarrow> Inl e
      | Inr ps \<Rightarrow> patch_toText dmp ps)"

text \<open>
  \<^verbatim>\<open>
  def apply_patches(text: str, patches: str) -> str:
      dmp = diff_match_patch()
      patched_text, _ = dmp.patch_apply(dmp.patch_fromText(patches), text)
      return patched_text
  \<close>
  The argument \<^verbatim>\<open>dmp.patch_fromText(patches)\<close> is evaluated before \<^verbatim>\<open>patch_apply\<close> is
  called, so a raise of the parser leaves the function with \<^verbatim>\<open>patch_apply\<close> not called.
  Of the pair \<^verbatim>\<open>patch_apply\<close> returns, the second component is dropped.
\<close>

definition apply_patches ::
  "('p, 'r, 'e) diff_match_patch \<Rightarrow> string \<Rightarrow> string \<Rightarrow> 'e + string" where
  "apply_patches dmp text ptext =
     (case patch_fromText dmp ptext of
        Inl e \<Rightarrow> Inl e
      | Inr ps \<Rightarrow>
          (case patch_apply dmp ps text of
             Inl e \<Rightarrow> Inl e
           | Inr (patched_text, _) \<Rightarrow> Inr patched_text))"

subsection \<open>The object store and apply_transaction\<close>

text \<open>
  \<^verbatim>\<open>Section\<close> and \<^verbatim>\<open>Transaction\<close> objects are mutable and passed by reference. The
  store holds the objects that exist; a reference is an index into it. Constructing an
  object appends it to the store, so the new reference is the store's old length and
  no reference that existed before names the new object.
\<close>

type_synonym ref = nat

record store =
  sections :: "Section list"
  transactions :: "Transaction list"

definition new_Section :: "store \<Rightarrow> string \<Rightarrow> string \<Rightarrow> ref \<times> store" where
  "new_Section st ty txt =
     (length (sections st),
      st\<lparr>sections := sections st @ [\<lparr>section_type = ty, section_text = txt\<rparr>]\<rparr>)"

text \<open>
  \<^verbatim>\<open>
  def apply_transaction(section: Section, transaction: Transaction) -> Section:
      new_text = apply_patches(section.text, transaction.patches)
      return Section(section.section_type, new_text)
  \<close>
  The result is the raise or the returned reference, together with the store after the
  call. When \<^verbatim>\<open>apply_patches\<close> raises, no object has been constructed and the store is
  the one the call started with.
\<close>

definition apply_transaction ::
  "('p, 'r, 'e) diff_match_patch \<Rightarrow> store \<Rightarrow> ref \<Rightarrow> ref \<Rightarrow> ('e + ref) \<times> store" where
  "apply_transaction dmp st section transaction =
     (case apply_patches dmp (section_text (sections st ! section))
             (patches (transactions st ! transaction)) of
        Inl e \<Rightarrow> (Inl e, st)
      | Inr new_text \<Rightarrow>
          (case new_Section st (section_type (sections st ! section)) new_text of
             (r, st') \<Rightarrow> (Inr r, st')))"

section \<open>The library at the texts of the tests\<close>

text \<open>
  To evaluate the wrappers at concrete inputs, the answers of \<^verbatim>\<open>diff_match_patch\<close> to
  the calls below are tabulated. A patch object of the library has a list of diffs
  (an operation and a text each) and the start and length of the hunk in both texts;
  \<^verbatim>\<open>patch_apply\<close> reports one boolean per patch object.
\<close>

datatype diff_op = DIFF_DELETE | DIFF_INSERT | DIFF_EQUAL

record patch_obj =
  diffs :: "(diff_op \<times> string) list"
  start1 :: nat
  start2 :: nat
  length1 :: nat
  length2 :: nat

text \<open>
  A patch text (in Python,
  \<^verbatim>\<open>"@@ -1,13 +1,23 @@\n Hello, \n+beautiful \n world!\n"\<close>) with one hunk, which
  inserts \<^verbatim>\<open>beautiful \<close> between the contexts \<^verbatim>\<open>Hello, \<close> and \<^verbatim>\<open>world!\<close>, and the
  patch object the library's parser reads from it: the header's start \<^verbatim>\<open>1\<close> is
  stored as 0, and each line is a diff by its first character.
\<close>

definition hello_patch_text :: string where
  "hello_patch_text =
     ''@@ -1,13 +1,23 @@\<newline> Hello, \<newline>+beautiful \<newline> world!\<newline>''"

definition hello_patch :: patch_obj where
  "hello_patch =
     \<lparr>diffs = [(DIFF_EQUAL, ''Hello, ''), (DIFF_INSERT, ''beautiful ''),
               (DIFF_EQUAL, ''world!'')],
      start1 = 0, start2 = 0, length1 = 13, length2 = 23\<rparr>"

text \<open>
  The tabulated answers:
  \<^item> \<^verbatim>\<open>patch_fromText("")\<close> is the empty list (\<^verbatim>\<open>if not textline: return patches\<close>);
  \<^item> \<^verbatim>\<open>patch_fromText\<close> of the patch text above is the list of its one patch object;
  \<^item> \<^verbatim>\<open>patch_apply([], text)\<close> is \<^verbatim>\<open>(text, [])\<close> for every text
    (\<^verbatim>\<open>if not patches: return (text, [])\<close>);
  \<^item> \<^verbatim>\<open>patch_apply\<close> of that patch object to \<^verbatim>\<open>Hello, world!\<close>, the first text of
    \<^verbatim>\<open>test_create_and_apply_patches\<close>, is \<^verbatim>\<open>("Hello, beautiful world!", [True])\<close>:
    the hunk's old text \<^verbatim>\<open>Hello, world!\<close> stands at the expected place and is
    replaced by its new text.

  For every other argument the table has no entry, written \<open>Inl Untabulated\<close>; that is
  not an answer of the library, and no statement below is about such an argument.
\<close>

datatype untabulated = Untabulated

definition tabulated_dmp :: "(patch_obj list, bool list, untabulated) diff_match_patch" where
  "tabulated_dmp =
     \<lparr>patch_make = (\<lambda>text1 text2. Inl Untabulated),
      patch_toText = (\<lambda>ps. Inl Untabulated),
      patch_fromText = (\<lambda>s.
         if s = [] then Inr []
         else if s = hello_patch_text then Inr [hello_patch]
         else Inl Untabulated),
      patch_apply = (\<lambda>ps text.
         if ps = [] then Inr (text, [])
         else if ps = [hello_patch] \<and> text = ''Hello, world!''
           then Inr (''Hello, beautiful world!'', [True])
         else Inl Untabulated)\<rparr>"

text \<open>
  \<open>with_results f dmp\<close> is the library \<open>dmp\<close> reporting \<open>f rs\<close> wherever \<open>dmp\<close>
  reports the results \<open>rs\<close>; the texts it returns, its parser and its exceptions are
  those of \<open>dmp\<close>.
\<close>

definition with_results ::
  "('r \<Rightarrow> 'q) \<Rightarrow> ('p, 'r, 'e) diff_match_patch \<Rightarrow> ('p, 'q, 'e) diff_match_patch" where
  "with_results f dmp =
     \<lparr>patch_make = patch_make dmp, patch_toText = patch_toText dmp,
      patch_fromText = patch_fromText dmp,
      patch_apply = (\<lambda>ps t. case patch_apply dmp ps t of
                                Inl e \<Rightarrow> Inl e
                              | Inr (t', rs) \<Rightarrow> Inr (t', f rs))\<rparr>"

text \<open>
  A store in the manner of \<^verbatim>\<open>test_apply_transaction\<close>: one Section of type
  \<^verbatim>\<open>test_section\<close> with the text \<^verbatim>\<open>Hello, world!\<close>, and one Transaction with the
  patch text above.
\<close>

definition test_store :: store where
  "test_store =
     \<lparr>sections = [\<lparr>section_type = ''test_section'', section_text = ''Hello, world!''\<rparr>],
      transactions = [\<lparr>patches = hello_patch_text\<rparr>]\<rparr>"

section \<open>Properties of the wrappers\<close>

subsection \<open>What apply_patches returns\<close>

lemma apply_patches_Inr:
  "apply_patches dmp text ptext = Inr t \<longleftrightarrow>
     (\<exists>ps rs. patch_fromText dmp ptext = Inr ps \<and> patch_apply dmp ps text = Inr (t, rs))"
  by (auto simp: apply_patches_def split: sum.splits prod.splits)

lemma apply_patches_with_results:
  "apply_patches (with_results f dmp) text ptext = apply_patches dmp text ptext"
  by (simp add: apply_patches_def with_results_def split: sum.splits prod.splits)

text \<open>
  A raise of the parser is the raise of \<^verbatim>\<open>apply_patches\<close>, whatever \<^verbatim>\<open>patch_apply\<close>
  would do: it is not called.
\<close>

lemma apply_patches_parse_error:
  "patch_fromText dmp ptext = Inl e \<Longrightarrow>
     apply_patches (dmp\<lparr>patch_apply := f\<rparr>) text ptext = Inl e"
  by (simp add: apply_patches_def)

text \<open>
  For every library: when two calls of \<^verbatim>\<open>patch_apply\<close> give the same text with
  different results, \<^verbatim>\<open>apply_patches\<close> returns the same value for both, so no function
  of the returned value gives the results of both.
\<close>

lemma apply_patches_hides_results:
  assumes "patch_fromText dmp ptext1 = Inr ps1"
      and "patch_apply dmp ps1 text1 = Inr (t, rs1)"
      and "patch_fromText dmp ptext2 = Inr ps2"
      and "patch_apply dmp ps2 text2 = Inr (t, rs2)"
      and "rs1 \<noteq> rs2"
  shows "apply_patches dmp text1 ptext1 = apply_patches dmp text2 ptext2
       \<and> \<not> (\<exists>outcomes_of. outcomes_of (apply_patches dmp text1 ptext1) = rs1
                          \<and> outcomes_of (apply_patches dmp text2 ptext2) = rs2)"
proof -
  have same: "apply_patches dmp text1 ptext1 = apply_patches dmp text2 ptext2"
    using assms(1-4) by (simp add: apply_patches_def)
  show ?thesis
  proof (intro conjI notI)
    show "apply_patches dmp text1 ptext1 = apply_patches dmp text2 ptext2"
      by (rule same)
  next
    assume "\<exists>outcomes_of. outcomes_of (apply_patches dmp text1 ptext1) = rs1
                          \<and> outcomes_of (apply_patches dmp text2 ptext2) = rs2"
    then obtain g where "g (apply_patches dmp text1 ptext1) = rs1"
      and "g (apply_patches dmp text2 ptext2) = rs2"
      by blast
    with same have "rs1 = rs2" by simp
    with assms(5) show False by simp
  qed
qed

lemma tabulated_dmp_eval:
  "patch_fromText tabulated_dmp '''' = Inr []"
  "patch_apply tabulated_dmp [] ''Hello, beautiful world!''
     = Inr (''Hello, beautiful world!'', [])"
  "patch_fromText tabulated_dmp hello_patch_text = Inr [hello_patch]"
  "patch_apply tabulated_dmp [hello_patch] ''Hello, world!''
     = Inr (''Hello, beautiful world!'', [True])"
  by (simp_all add: tabulated_dmp_def hello_patch_text_def)

text \<open>
  C4, as amended. \<^verbatim>\<open>apply_patches\<close> returns only the resulting text: it returns \<open>t\<close>
  exactly when the patch text parses and \<^verbatim>\<open>patch_apply\<close> returns a pair whose first
  component is \<open>t\<close>. The per-patch results, the second component, are dropped: a
  library that reports \<open>f rs\<close> in place of \<open>rs\<close> makes \<^verbatim>\<open>apply_patches\<close> return the
  same value, for every \<open>f\<close>.
\<close>

theorem apply_patches_text_only:
  "(apply_patches dmp text ptext = Inr t \<longleftrightarrow>
      (\<exists>ps rs. patch_fromText dmp ptext = Inr ps \<and> patch_apply dmp ps text = Inr (t, rs)))
   \<and> apply_patches (with_results f dmp) text ptext = apply_patches dmp text ptext"
  using apply_patches_Inr apply_patches_with_results by blast

text \<open>
  The theorem at the text \<^verbatim>\<open>Hello, world!\<close> and the patch text above, with the
  results replaced by their number.
\<close>

theorem apply_patches_text_only_witness:
  "apply_patches tabulated_dmp ''Hello, world!'' hello_patch_text
     = Inr ''Hello, beautiful world!''
   \<and> patch_fromText tabulated_dmp hello_patch_text = Inr [hello_patch]
   \<and> patch_apply tabulated_dmp [hello_patch] ''Hello, world!''
       = Inr (''Hello, beautiful world!'', [True])
   \<and> apply_patches (with_results length tabulated_dmp) ''Hello, world!'' hello_patch_text
       = Inr ''Hello, beautiful world!''"
  using apply_patches_text_only
    [of tabulated_dmp "''Hello, world!''" hello_patch_text "''Hello, beautiful world!''" length]
    tabulated_dmp_eval(3,4)
  by simp

text \<open>
  C4, as stated, fails: the value \<^verbatim>\<open>apply_patches\<close> returns carries no sequence of
  per-hunk outcomes. The empty patch text applied to \<^verbatim>\<open>Hello, beautiful world!\<close> (no
  hunk, no outcome) and the patch text above applied to \<^verbatim>\<open>Hello, world!\<close> (one hunk,
  one outcome) return the same value, \<^verbatim>\<open>Hello, beautiful world!\<close>; so nothing read
  off the returned value is the outcome sequence of both calls.
\<close>

theorem apply_patches_outcomes_counterexample:
  "patch_fromText tabulated_dmp '''' = Inr []
   \<and> patch_apply tabulated_dmp [] ''Hello, beautiful world!''
       = Inr (''Hello, beautiful world!'', [])
   \<and> patch_fromText tabulated_dmp hello_patch_text = Inr [hello_patch]
   \<and> patch_apply tabulated_dmp [hello_patch] ''Hello, world!''
       = Inr (''Hello, beautiful world!'', [True])
   \<and> apply_patches tabulated_dmp ''Hello, beautiful world!'' ''''
       = Inr ''Hello, beautiful world!''
   \<and> apply_patches tabulated_dmp ''Hello, world!'' hello_patch_text
       = Inr ''Hello, beautiful world!''
   \<and> \<not> (\<exists>outcomes_of.
          outcomes_of (apply_patches tabulated_dmp ''Hello, beautiful world!'' '''') = []
          \<and> outcomes_of (apply_patches tabulated_dmp ''Hello, world!'' hello_patch_text)
              = [True])"
proof -
  have ne: "[] \<noteq> [True]"
    by simp
  have none: "apply_patches tabulated_dmp ''Hello, beautiful world!'' ''''
                = Inr ''Hello, beautiful world!''"
    by (simp add: apply_patches_def tabulated_dmp_eval)
  have one: "apply_patches tabulated_dmp ''Hello, world!'' hello_patch_text
               = Inr ''Hello, beautiful world!''"
    by (simp add: apply_patches_def tabulated_dmp_eval)
  from apply_patches_hides_results [OF tabulated_dmp_eval(1,2,3,4) ne] none one
    tabulated_dmp_eval
  show ?thesis
    by blast
qed

subsection \<open>create_patches followed by apply_patches\<close>

text \<open>
  \<^verbatim>\<open>core.py\<close> adds nothing to the library's calls but their order. That the patch text
  of \<open>text1\<close> and \<open>text2\<close>, applied to \<open>text1\<close>, gives \<open>text2\<close> says of the library
  that its four methods compose to that, and nothing more.
\<close>

lemma create_patches_Inr:
  "create_patches dmp text1 text2 = Inr s \<longleftrightarrow>
     (\<exists>ps. patch_make dmp text1 text2 = Inr ps \<and> patch_toText dmp ps = Inr s)"
  by (auto simp: create_patches_def split: sum.splits)

lemma round_trip_unfolded:
  "(\<exists>s. create_patches dmp text1 text2 = Inr s \<and> apply_patches dmp text1 s = Inr text2) \<longleftrightarrow>
   (\<exists>ps s ps' rs.
      patch_make dmp text1 text2 = Inr ps \<and> patch_toText dmp ps = Inr s \<and>
      patch_fromText dmp s = Inr ps' \<and> patch_apply dmp ps' text1 = Inr (text2, rs))"
  by (auto simp: create_patches_Inr apply_patches_Inr)

subsection \<open>apply_transaction\<close>

text \<open>
  C10. Let \<open>section\<close> and \<open>transaction\<close> be references to objects of the store
  \<open>st\<close>, and let \<^verbatim>\<open>apply_transaction\<close> end with the result \<open>res\<close> in the store \<open>st'\<close>.
  Then the input Section and every other Section of \<open>st\<close> are in \<open>st'\<close> as they were,
  and so are the Transactions. When the call returns a reference \<open>r\<close>, it names a new
  object (the only one added to the store) whose \<^verbatim>\<open>section_type\<close> is that of the
  input Section and whose \<^verbatim>\<open>text\<close> is what \<^verbatim>\<open>apply_patches\<close> returns for the input
  Section's text and the Transaction's patches. When the call raises, the exception is
  that of \<^verbatim>\<open>apply_patches\<close> and the store is unchanged.
\<close>

theorem apply_transaction_new_section:
  assumes "section < length (sections st)"
      and "transaction < length (transactions st)"
      and "apply_transaction dmp st section transaction = (res, st')"
  shows "sections st' ! section = sections st ! section
       \<and> transactions st' = transactions st
       \<and> (\<forall>i < length (sections st). sections st' ! i = sections st ! i)
       \<and> (case res of
            Inl e \<Rightarrow>
              apply_patches dmp (section_text (sections st ! section))
                (patches (transactions st ! transaction)) = Inl e
              \<and> st' = st
          | Inr r \<Rightarrow>
              r = length (sections st)
              \<and> length (sections st') = Suc (length (sections st))
              \<and> section_type (sections st' ! r) = section_type (sections st ! section)
              \<and> apply_patches dmp (section_text (sections st ! section))
                   (patches (transactions st ! transaction))
                 = Inr (section_text (sections st' ! r)))"
  using assms
  by (auto simp: apply_transaction_def new_Section_def nth_append split: sum.splits)

text \<open>
  The theorem at the Section and the Transaction of \<open>test_store\<close>: the call returns the
  reference 1 to a new Section of type \<^verbatim>\<open>test_section\<close> with the text
  \<^verbatim>\<open>Hello, beautiful world!\<close>, and the Section at reference 0 and the Transaction are
  as before.
\<close>

theorem apply_transaction_new_section_witness:
  "(0::nat) < length (sections test_store) \<and> (0::nat) < length (transactions test_store)
   \<and> apply_transaction tabulated_dmp test_store 0 0 =
       (Inr 1, test_store\<lparr>sections := sections test_store @
          [\<lparr>section_type = ''test_section'', section_text = ''Hello, beautiful world!''\<rparr>]\<rparr>)
   \<and> sections (snd (apply_transaction tabulated_dmp test_store 0 0)) ! 0
       = sections test_store ! 0
   \<and> transactions (snd (apply_transaction tabulated_dmp test_store 0 0))
       = transactions test_store
   \<and> section_type (sections (snd (apply_transaction tabulated_dmp test_store 0 0)) ! 1)
       = ''test_section''
   \<and> apply_patches tabulated_dmp (section_text (sections test_store ! 0))
         (patches (transactions test_store ! 0))
       = Inr (section_text (sections (snd (apply_transaction tabulated_dmp test_store 0 0)) ! 1))"
proof -
  have s: "(0::nat) < length (sections test_store)"
    and t: "(0::nat) < length (transactions test_store)"
    by (simp_all add: test_store_def)
  have ap: "apply_patches tabulated_dmp ''Hello, world!'' hello_patch_text
              = Inr ''Hello, beautiful world!''"
    by (simp add: apply_patches_def tabulated_dmp_eval)
  have run: "apply_transaction tabulated_dmp test_store 0 0 =
       (Inr 1, test_store\<lparr>sections := sections test_store @
          [\<lparr>section_type = ''test_section'', section_text = ''Hello, beautiful world!''\<rparr>]\<rparr>)"
    by (simp add: apply_transaction_def new_Section_def test_store_def ap)
  from apply_transaction_new_section [OF s t run] s t run show ?thesis
    by simp
qed

end
